theory Spec2Isabelle
  imports Main "HOL-Library.Word"
begin

section \<open>JavaScript values\<close>

text \<open>
  The services pass three kinds of run-time values around: documents and configuration
  objects (plain objects), values thrown by the Firebase SDK (anything: the \<^verbatim>\<open>catch\<close>
  clauses bind \<^verbatim>\<open>error: any\<close>), and \<^verbatim>\<open>Error\<close> instances built with \<^verbatim>\<open>new Error(msg)\<close>.
  An object is a finite map from property names to values; the order of the properties
  plays no part in the code, and no property of a plain object is a function. A number is
  an integer that a \<^verbatim>\<open>Number\<close> holds exactly: a 54-bit word read as signed, from \<open>- 2^53\<close>
  to \<open>2^53 - 1\<close>. An \<^verbatim>\<open>Error\<close> instance has its name and message, the \<^verbatim>\<open>code\<close> property
  that the errors of the Firebase SDK add, and the result of its own \<^verbatim>\<open>toString\<close> method
  when it has one of its own (the errors of the Firestore SDK do).
\<close>

datatype js_value =
    JsUndefined
  | JsNull
  | JsBoolean bool
  | JsNumber "54 word"
  | JsString string
  | JsObject "string \<Rightarrow> js_value option"
  | JsError (err_name: string) (err_message: string)
      (err_code: "string option") (err_toString: "string option")

type_synonym js_object = "string \<Rightarrow> js_value option"

text \<open>
  \<^verbatim>\<open>new Error(message)\<close>: the name of a plain \<^verbatim>\<open>Error\<close> is \<^verbatim>\<open>"Error"\<close>; it has no code and
  no \<^verbatim>\<open>toString\<close> of its own.
\<close>

definition new_Error :: "string \<Rightarrow> js_value" where
  "new_Error message = JsError ''Error'' message None None"

text \<open>
  The errors the Firebase SDK throws, as its sources build them. A \<^verbatim>\<open>FirebaseError\<close> has
  the name \<^verbatim>\<open>"FirebaseError"\<close> and a code; the errors of the auth SDK carry the code in
  \<^verbatim>\<open>code\<close> and the message \<^verbatim>\<open>"Firebase: Error (<code>)."\<close>; a \<^verbatim>\<open>FirestoreError\<close> also
  sets its own \<^verbatim>\<open>toString\<close>, which gives \<^verbatim>\<open>"<name>: [code=<code>]: <message>"\<close>.
\<close>

definition FirebaseError :: "string \<Rightarrow> string \<Rightarrow> js_value" where
  "FirebaseError code message = JsError ''FirebaseError'' message (Some code) None"

definition auth_error :: "string \<Rightarrow> js_value" where
  "auth_error code = FirebaseError code (''Firebase: Error ('' @ code @ '').'')"

definition FirestoreError :: "string \<Rightarrow> string \<Rightarrow> js_value" where
  "FirestoreError code message =
     JsError ''FirebaseError'' message (Some code)
       (Some (''FirebaseError: [code='' @ code @ '']: '' @ message))"

text \<open>\<^verbatim>\<open>error instanceof Error\<close>: true of \<^verbatim>\<open>Error\<close> and of every subclass of it.\<close>

fun instanceof_Error :: "js_value \<Rightarrow> bool" where
  "instanceof_Error (JsError name message code own) = True"
| "instanceof_Error v = False"

function show_nat :: "nat \<Rightarrow> string" where
  "show_nat n =
     (if n < 10 then [''0123456789'' ! n]
      else show_nat (n div 10) @ [''0123456789'' ! (n mod 10)])"
  by pat_completeness auto
termination
  by (relation "measure id") auto

definition show_int :: "int \<Rightarrow> string" where
  "show_int i = (if i < 0 then CHR ''-'' # show_nat (nat (- i)) else show_nat (nat i))"

text \<open>
  The string a template literal \<^verbatim>\<open>`${v}`\<close> inserts for a value: the conversion \<^verbatim>\<open>ToString\<close>
  of the language, which may throw (\<open>Inl\<close>).
  \<^item> A number of the range above prints as its decimal digits.
  \<^item> An \<^verbatim>\<open>Error\<close> with a \<^verbatim>\<open>toString\<close> of its own gives what that method returns; any other
    gives \<^verbatim>\<open>Error.prototype.toString\<close>: the name, the message, or both joined by a colon and
    a space.
  \<^item> A plain object inherits \<^verbatim>\<open>Object.prototype.toString\<close>. When it has a property
    \<^verbatim>\<open>toString\<close> of its own, that property is not a function, neither \<^verbatim>\<open>toString\<close> nor
    \<^verbatim>\<open>valueOf\<close> yields a primitive, and the conversion throws a \<^verbatim>\<open>TypeError\<close> (with the
    message V8 gives it).
\<close>

fun js_to_string :: "js_value \<Rightarrow> js_value + string" where
  "js_to_string JsUndefined = Inr ''undefined''"
| "js_to_string JsNull = Inr ''null''"
| "js_to_string (JsBoolean b) = Inr (if b then ''true'' else ''false'')"
| "js_to_string (JsNumber n) = Inr (show_int (sint n))"
| "js_to_string (JsString s) = Inr s"
| "js_to_string (JsObject data) =
     (if data ''toString'' = None then Inr ''[object Object]''
      else Inl (JsError ''TypeError'' ''Cannot convert object to primitive value'' None None))"
| "js_to_string (JsError name message code (Some own)) = Inr own"
| "js_to_string (JsError name message code None) =
     Inr (if name = [] then message
          else if message = [] then name
          else name @ '': '' @ message)"

section \<open>The Firebase app SDK and the lifecycle manager (firebaseInit.ts)\<close>

text \<open>
  The handles the SDK gives out are opaque to the library: it stores them and hands them
  on. Each handle records what it was made from.
\<close>

datatype FirebaseApp = FirebaseApp (app_options: js_object)
datatype Firestore = Firestore FirebaseApp
datatype Auth = Auth FirebaseApp
datatype Analytics = Analytics FirebaseApp

text \<open>
  The four SDK functions the constructor calls. They are code of the Firebase SDK, not of
  this library, so they are a parameter. Each may throw: \<open>Inl\<close> carries the thrown value.
\<close>

record app_sdk =
  initializeApp :: "js_object \<Rightarrow> js_value + FirebaseApp"
  getFirestore :: "FirebaseApp \<Rightarrow> js_value + Firestore"
  getAuth :: "FirebaseApp \<Rightarrow> js_value + Auth"
  getAnalytics :: "FirebaseApp \<Rightarrow> js_value + Analytics"

datatype AuthProvider =
  GoogleAuthProvider | FacebookAuthProvider | GithubAuthProvider | TwitterAuthProvider

record FirestoreService =
  fs_db :: Firestore

record FirestoreServiceInstance =
  fsi_db :: Firestore
  fsi_collectionName :: string

record FirebaseAuthService =
  as_auth :: Auth
  as_providers :: "string \<Rightarrow> AuthProvider option"

definition FirestoreService_new :: "Firestore \<Rightarrow> FirestoreService" where
  "FirestoreService_new firestoreInstance = \<lparr>fs_db = firestoreInstance\<rparr>"

definition FirestoreServiceInstance_new :: "Firestore \<Rightarrow> string \<Rightarrow> FirestoreServiceInstance" where
  "FirestoreServiceInstance_new firestoreInstance collectionName =
     \<lparr>fsi_db = firestoreInstance, fsi_collectionName = collectionName\<rparr>"

text \<open>The constructor of \<^verbatim>\<open>FirebaseAuthService\<close> fills the provider map with four entries.\<close>

definition FirebaseAuthService_new :: "Auth \<Rightarrow> FirebaseAuthService" where
  "FirebaseAuthService_new auth =
     \<lparr>as_auth = auth,
      as_providers = [''google'' \<mapsto> GoogleAuthProvider,
                      ''facebook'' \<mapsto> FacebookAuthProvider,
                      ''github'' \<mapsto> GithubAuthProvider,
                      ''twitter'' \<mapsto> TwitterAuthProvider]\<rparr>"

record FirebaseInit =
  init_app :: FirebaseApp
  init_db :: Firestore
  init_auth :: Auth
  init_firestoreService :: FirestoreService
  init_analytics :: Analytics
  init_authService :: FirebaseAuthService

text \<open>
  The private constructor. It has no \<^verbatim>\<open>try\<close>: a value thrown by an SDK call leaves the
  constructor, and no instance is built.
\<close>

definition FirebaseInit_new :: "app_sdk \<Rightarrow> js_object \<Rightarrow> js_value + FirebaseInit" where
  "FirebaseInit_new sdk firebaseConfig =
     (case initializeApp sdk firebaseConfig of
        Inl error \<Rightarrow> Inl error
      | Inr app \<Rightarrow>
     (case getFirestore sdk app of
        Inl error \<Rightarrow> Inl error
      | Inr db \<Rightarrow>
     (case getAuth sdk app of
        Inl error \<Rightarrow> Inl error
      | Inr auth \<Rightarrow>
     (case getAnalytics sdk app of
        Inl error \<Rightarrow> Inl error
      | Inr analytics \<Rightarrow>
          Inr \<lparr>init_app = app, init_db = db, init_auth = auth,
               init_firestoreService = FirestoreService_new db,
               init_analytics = analytics,
               init_authService = FirebaseAuthService_new auth\<rparr>))))"

text \<open>
  \<^verbatim>\<open>getInstance(firebaseConfig?)\<close>. The static field \<^verbatim>\<open>FirebaseInit.instance\<close> is the
  state: \<open>None\<close> while it is undefined. The argument is \<open>None\<close> when it is omitted (or
  null); an object is always truthy. The function returns its result and the new
  content of the static field.
\<close>

definition getInstance ::
  "app_sdk \<Rightarrow> js_object option \<Rightarrow> FirebaseInit option
     \<Rightarrow> (js_value + FirebaseInit) \<times> FirebaseInit option" where
  "getInstance sdk firebaseConfig instance =
     (case instance of
        Some existing \<Rightarrow> (Inr existing, instance)
      | None \<Rightarrow>
          (case firebaseConfig of
             None \<Rightarrow> (Inl (new_Error ''Firebase config is required for initialization''), instance)
           | Some config \<Rightarrow>
               (case FirebaseInit_new sdk config of
                  Inl error \<Rightarrow> (Inl error, instance)
                | Inr created \<Rightarrow> (Inr created, Some created))))"

definition getFirestoreService :: "FirebaseInit \<Rightarrow> FirestoreService" where
  "getFirestoreService this = init_firestoreService this"

definition getFirestoreServiceInstance :: "FirebaseInit \<Rightarrow> string \<Rightarrow> FirestoreServiceInstance" where
  "getFirestoreServiceInstance this collectionName =
     FirestoreServiceInstance_new (init_db this) collectionName"

definition getAuthService :: "FirebaseInit \<Rightarrow> FirebaseAuthService" where
  "getAuthService this = init_authService this"

text \<open>
  The interface \<^verbatim>\<open>FirebaseConfig\<close>: six string fields and the optional
  \<^verbatim>\<open>measurementId\<close>. A value of this type is, at run time, the object with these
  properties.
\<close>

record FirebaseConfig =
  apiKey :: string
  authDomain :: string
  projectId :: string
  storageBucket :: string
  messagingSenderId :: string
  appId :: string
  measurementId :: "string option"

definition FirebaseConfig_object :: "FirebaseConfig \<Rightarrow> js_object" where
  "FirebaseConfig_object config =
     (let required =
        [''apiKey'' \<mapsto> JsString (apiKey config),
         ''authDomain'' \<mapsto> JsString (authDomain config),
         ''projectId'' \<mapsto> JsString (projectId config),
         ''storageBucket'' \<mapsto> JsString (storageBucket config),
         ''messagingSenderId'' \<mapsto> JsString (messagingSenderId config),
         ''appId'' \<mapsto> JsString (appId config)]
      in case measurementId config of
           None \<Rightarrow> required
         | Some m \<Rightarrow> required(''measurementId'' \<mapsto> JsString m))"

definition initializeFirebaseLib ::
  "app_sdk \<Rightarrow> FirebaseConfig \<Rightarrow> FirebaseInit option
     \<Rightarrow> (js_value + FirebaseInit) \<times> FirebaseInit option" where
  "initializeFirebaseLib sdk config instance =
     getInstance sdk (Some (FirebaseConfig_object config)) instance"

text \<open>
  A sequence of calls to \<^verbatim>\<open>getInstance\<close>, one argument per call, starting from a given
  content of the static field: the results of the calls, in order.
\<close>

fun getInstance_calls ::
  "app_sdk \<Rightarrow> js_object option list \<Rightarrow> FirebaseInit option \<Rightarrow> (js_value + FirebaseInit) list" where
  "getInstance_calls sdk [] instance = []"
| "getInstance_calls sdk (firebaseConfig # rest) instance =
     (case getInstance sdk firebaseConfig instance of
        (result, instance') \<Rightarrow> result # getInstance_calls sdk rest instance')"

text \<open>
  An SDK for the examples: every call returns a handle and none throws.
\<close>

definition accepting_sdk :: app_sdk where
  "accepting_sdk =
     \<lparr>initializeApp = (\<lambda>options. Inr (FirebaseApp options)),
      getFirestore = (\<lambda>app. Inr (Firestore app)),
      getAuth = (\<lambda>app. Inr (Auth app)),
      getAnalytics = (\<lambda>app. Inr (Analytics app))\<rparr>"

section \<open>Asynchronous calls\<close>

text \<open>
  An \<^verbatim>\<open>async\<close> function runs against the world outside the process (the remote store,
  the identity backend, the console) and either returns a value or throws. It is a
  function from the world to the outcome (\<open>Inl\<close> the thrown value) and the world after.
\<close>

type_synonym ('w, 'a) async = "'w \<Rightarrow> (js_value + 'a) \<times> 'w"

definition resolve :: "'a \<Rightarrow> ('w, 'a) async" where
  "resolve v w = (Inr v, w)"

definition throw :: "js_value \<Rightarrow> ('w, 'a) async" where
  "throw error w = (Inl error, w)"

text \<open>A synchronous SDK call inside an async function: it returns or throws at once.\<close>

definition sync :: "js_value + 'a \<Rightarrow> ('w, 'a) async" where
  "sync outcome w = (outcome, w)"

text \<open>\<^verbatim>\<open>const v = await m; rest(v)\<close>: a throw of \<open>m\<close> skips the rest.\<close>

definition await_then :: "('w, 'a) async \<Rightarrow> ('a \<Rightarrow> ('w, 'b) async) \<Rightarrow> ('w, 'b) async" where
  "await_then m rest w =
     (case m w of
        (Inl error, w') \<Rightarrow> (Inl error, w')
      | (Inr v, w') \<Rightarrow> rest v w')"

text \<open>\<^verbatim>\<open>try { body } catch (error) { handler(error) }\<close>.\<close>

definition try_catch :: "('w, 'a) async \<Rightarrow> (js_value \<Rightarrow> ('w, 'a) async) \<Rightarrow> ('w, 'a) async" where
  "try_catch body handler w =
     (case body w of
        (Inl error, w') \<Rightarrow> handler error w'
      | (Inr v, w') \<Rightarrow> (Inr v, w'))"

text \<open>
  \<^verbatim>\<open>throw new Error(`<phrase>${error}`)\<close>, the body of every \<^verbatim>\<open>catch\<close> of the two document
  clients. The template literal converts the caught value first; when that conversion
  throws, its error leaves the \<^verbatim>\<open>catch\<close> block and no \<^verbatim>\<open>Error\<close> is built. \<open>raised\<close> is
  the value thrown.
\<close>

definition raised :: "string \<Rightarrow> js_value \<Rightarrow> js_value" where
  "raised phrase error =
     (case js_to_string error of
        Inl conversion_error \<Rightarrow> conversion_error
      | Inr text \<Rightarrow> new_Error (phrase @ text))"

definition throw_new_Error :: "string \<Rightarrow> js_value \<Rightarrow> ('w, 'a) async" where
  "throw_new_Error phrase error = throw (raised phrase error)"

section \<open>The session manager (FirebaseAuthService)\<close>

datatype UserCredential = UserCredential (cred_uid: string) (cred_provider: AuthProvider)

text \<open>The call of the identity backend that \<^verbatim>\<open>loginWithProvider\<close> makes; a parameter.\<close>

record 'w auth_sdk =
  signInWithPopup :: "Auth \<Rightarrow> AuthProvider \<Rightarrow> ('w, UserCredential) async"

text \<open>
  \<^verbatim>\<open>handleAuthError(error: any): Error\<close>. The \<^verbatim>\<open>switch\<close> is on \<^verbatim>\<open>error.message\<close>, with
  the labels in the order of the source.
\<close>

definition handleAuthError :: "js_value \<Rightarrow> js_value" where
  "handleAuthError error =
     new_Error
       (if instanceof_Error error then
          (if err_message error = ''auth/email-already-in-use'' then
             ''This email is already registered''
           else if err_message error = ''auth/invalid-email'' then
             ''Invalid email format''
           else if err_message error = ''auth/operation-not-allowed'' then
             ''Operation not allowed''
           else if err_message error = ''auth/weak-password'' then
             ''Password is too weak''
           else if err_message error = ''auth/user-disabled'' then
             ''This user account has been disabled''
           else if err_message error = ''auth/user-not-found'' then
             ''User not found''
           else if err_message error = ''auth/wrong-password'' then
             ''Invalid password''
           else err_message error)
        else ''An authentication error occurred'')"

text \<open>
  \<^verbatim>\<open>loginWithProvider(providerType)\<close>. The lookup and the \<^verbatim>\<open>throw\<close> for a missing
  provider are inside the \<^verbatim>\<open>try\<close>, so that error too goes through
  \<^verbatim>\<open>handleAuthError\<close>.
\<close>

definition loginWithProvider ::
  "'w auth_sdk \<Rightarrow> FirebaseAuthService \<Rightarrow> string \<Rightarrow> ('w, UserCredential) async" where
  "loginWithProvider sdk this providerType =
     try_catch
       (case as_providers this providerType of
          None \<Rightarrow> throw (new_Error (''Provider '' @ providerType @ '' not supported''))
        | Some provider \<Rightarrow> signInWithPopup sdk (as_auth this) provider)
       (\<lambda>error. throw (handleAuthError error))"

section \<open>The Firestore SDK\<close>

datatype CollectionReference = CollectionReference (coll_path: string)

datatype DocumentReference = DocumentReference (ref_collection: string) (ref_id: string)

text \<open>
  A query constraint is built by the caller with the SDK (\<^verbatim>\<open>where(field, op, value)\<close>)
  and passed through by the library unread.
\<close>

datatype QueryConstraint = Where string string js_value

datatype Query = Query (query_collection: string) (query_constraints: "QueryConstraint list")

text \<open>\<^verbatim>\<open>CollectionReference\<close> extends \<^verbatim>\<open>Query\<close>: a collection is the query with no constraint.\<close>

definition as_Query :: "CollectionReference \<Rightarrow> Query" where
  "as_Query collectionRef = Query (coll_path collectionRef) []"

text \<open>
  A document snapshot holds the fields of the document, or nothing when the document does
  not exist. \<^verbatim>\<open>exists()\<close> says which; \<^verbatim>\<open>data()\<close> returns the fields as an object, and
  \<^verbatim>\<open>undefined\<close> when there are none.
\<close>

datatype DocumentSnapshot = DocumentSnapshot (snap_id: string) (snap_data: "js_object option")

definition snap_exists :: "DocumentSnapshot \<Rightarrow> bool" where
  "snap_exists docSnap = (snap_data docSnap \<noteq> None)"

definition data_of :: "DocumentSnapshot \<Rightarrow> js_value" where
  "data_of docSnap = (case snap_data docSnap of None \<Rightarrow> JsUndefined | Some d \<Rightarrow> JsObject d)"

datatype QueryDocumentSnapshot = QueryDocumentSnapshot (qdoc_id: string) (qdoc_data: js_object)

text \<open>
  The SDK functions the two document clients call; a parameter. \<^verbatim>\<open>collection\<close>,
  \<^verbatim>\<open>doc\<close> with an identifier and \<^verbatim>\<open>query\<close> are synchronous; \<^verbatim>\<open>doc\<close> without an
  identifier draws a fresh one. \<^verbatim>\<open>doc\<close> has three call shapes in the source, one field
  each: \<^verbatim>\<open>doc(db, name, id)\<close>, \<^verbatim>\<open>doc(collectionRef, id)\<close>, \<^verbatim>\<open>doc(collectionRef)\<close>.
\<close>

record 'w firestore_sdk =
  collection :: "Firestore \<Rightarrow> string \<Rightarrow> js_value + CollectionReference"
  doc :: "Firestore \<Rightarrow> string \<Rightarrow> string \<Rightarrow> js_value + DocumentReference"
  doc_in :: "CollectionReference \<Rightarrow> string \<Rightarrow> js_value + DocumentReference"
  doc_auto :: "CollectionReference \<Rightarrow> ('w, DocumentReference) async"
  setDoc :: "DocumentReference \<Rightarrow> js_object \<Rightarrow> ('w, unit) async"
  getDoc :: "DocumentReference \<Rightarrow> ('w, DocumentSnapshot) async"
  getDocs :: "Query \<Rightarrow> ('w, QueryDocumentSnapshot list) async"
  updateDoc :: "DocumentReference \<Rightarrow> js_object \<Rightarrow> ('w, unit) async"
  deleteDoc :: "DocumentReference \<Rightarrow> ('w, unit) async"
  query :: "Query \<Rightarrow> QueryConstraint list \<Rightarrow> js_value + Query"
  console_log :: "string \<Rightarrow> js_object list \<Rightarrow> 'w \<Rightarrow> 'w"

text \<open>\<^verbatim>\<open>{ id: id, ...data }\<close>: the properties of \<open>data\<close> win, \<^verbatim>\<open>id\<close> included.\<close>

definition with_id :: "string \<Rightarrow> js_object \<Rightarrow> js_object" where
  "with_id ident data = [''id'' \<mapsto> JsString ident] ++ data"

text \<open>Spreading \<^verbatim>\<open>undefined\<close> adds no property.\<close>

definition spread :: "js_object option \<Rightarrow> js_object" where
  "spread data = (case data of None \<Rightarrow> Map.empty | Some m \<Rightarrow> m)"

text \<open>
  \<^verbatim>\<open>customId ? doc(collectionRef, customId) : doc(collectionRef)\<close>: an omitted and an
  empty \<^verbatim>\<open>customId\<close> are both falsy.
\<close>

definition new_docRef ::
  "'w firestore_sdk \<Rightarrow> CollectionReference \<Rightarrow> string option \<Rightarrow> ('w, DocumentReference) async" where
  "new_docRef sdk collectionRef customId =
     (case customId of
        None \<Rightarrow> doc_auto sdk collectionRef
      | Some ident \<Rightarrow>
          if ident \<noteq> [] then sync (doc_in sdk collectionRef ident)
          else doc_auto sdk collectionRef)"

section \<open>The document client (FirestoreService)\<close>

definition FirestoreService_create ::
  "'w firestore_sdk \<Rightarrow> FirestoreService \<Rightarrow> string \<Rightarrow> js_object \<Rightarrow> string option
     \<Rightarrow> ('w, js_object) async" where
  "FirestoreService_create sdk this collectionName data customId =
     try_catch
       (await_then (sync (collection sdk (fs_db this) collectionName)) (\<lambda>collectionRef.
        await_then (new_docRef sdk collectionRef customId) (\<lambda>docRef.
        await_then (setDoc sdk docRef data) (\<lambda>_.
        resolve (with_id (ref_id docRef) data)))))
       (throw_new_Error ''Error creating document: '')"

text \<open>
  \<^verbatim>\<open>read\<close> returns a value: what \<^verbatim>\<open>data()\<close> returns when the document exists, and
  \<^verbatim>\<open>null\<close> when it does not.
\<close>

definition FirestoreService_read ::
  "'w firestore_sdk \<Rightarrow> FirestoreService \<Rightarrow> string \<Rightarrow> string \<Rightarrow> ('w, js_value) async" where
  "FirestoreService_read sdk this collectionName documentId =
     try_catch
       (await_then (sync (doc sdk (fs_db this) collectionName documentId)) (\<lambda>docRef.
        await_then (getDoc sdk docRef) (\<lambda>docSnap.
        if snap_exists docSnap then resolve (data_of docSnap) else resolve JsNull)))
       (throw_new_Error ''Error reading document: '')"

definition FirestoreService_update ::
  "'w firestore_sdk \<Rightarrow> FirestoreService \<Rightarrow> string \<Rightarrow> string \<Rightarrow> js_object
     \<Rightarrow> ('w, js_object) async" where
  "FirestoreService_update sdk this collectionName documentId data =
     try_catch
       (await_then (sync (doc sdk (fs_db this) collectionName documentId)) (\<lambda>docRef.
        await_then (updateDoc sdk docRef data) (\<lambda>_.
        await_then (getDoc sdk docRef) (\<lambda>docSnap.
        resolve (with_id (ref_id docRef) (spread (snap_data docSnap)))))))
       (throw_new_Error ''Error updating document: '')"

definition FirestoreService_delete ::
  "'w firestore_sdk \<Rightarrow> FirestoreService \<Rightarrow> string \<Rightarrow> string \<Rightarrow> ('w, unit) async" where
  "FirestoreService_delete sdk this collectionName documentId =
     try_catch
       (await_then (sync (doc sdk (fs_db this) collectionName documentId)) (\<lambda>docRef.
        deleteDoc sdk docRef))
       (throw_new_Error ''Error deleting document: '')"

definition FirestoreService_getAll ::
  "'w firestore_sdk \<Rightarrow> FirestoreService \<Rightarrow> string \<Rightarrow> ('w, js_object list) async" where
  "FirestoreService_getAll sdk this collectionName =
     try_catch
       (await_then (sync (collection sdk (fs_db this) collectionName)) (\<lambda>collectionRef.
        await_then (getDocs sdk (as_Query collectionRef)) (\<lambda>docs.
        (let documents = map (\<lambda>d. with_id (qdoc_id d) (qdoc_data d)) docs
         in (\<lambda>w. resolve documents (console_log sdk ''Documents'' documents w))))))
       (throw_new_Error ''Error getting all documents: '')"

definition FirestoreService_query ::
  "'w firestore_sdk \<Rightarrow> FirestoreService \<Rightarrow> string \<Rightarrow> QueryConstraint list
     \<Rightarrow> ('w, js_object list) async" where
  "FirestoreService_query sdk this collectionName conditions =
     try_catch
       (await_then (sync (collection sdk (fs_db this) collectionName)) (\<lambda>collectionRef.
        await_then (sync (query sdk (as_Query collectionRef) conditions)) (\<lambda>q.
        await_then (getDocs sdk q) (\<lambda>docs.
        resolve (map (\<lambda>d. with_id (qdoc_id d) (qdoc_data d)) docs)))))
       (throw_new_Error ''Error querying documents: '')"

section \<open>The collection-scoped client (FirestoreServiceInstance)\<close>

definition FirestoreServiceInstance_create ::
  "'w firestore_sdk \<Rightarrow> FirestoreServiceInstance \<Rightarrow> js_object \<Rightarrow> string option
     \<Rightarrow> ('w, js_object) async" where
  "FirestoreServiceInstance_create sdk this data customId =
     try_catch
       (await_then (sync (collection sdk (fsi_db this) (fsi_collectionName this))) (\<lambda>collectionRef.
        await_then (new_docRef sdk collectionRef customId) (\<lambda>docRef.
        await_then (setDoc sdk docRef data) (\<lambda>_.
        resolve (with_id (ref_id docRef) data)))))
       (throw_new_Error ''Error creating document: '')"

definition FirestoreServiceInstance_read ::
  "'w firestore_sdk \<Rightarrow> FirestoreServiceInstance \<Rightarrow> string \<Rightarrow> ('w, js_value) async" where
  "FirestoreServiceInstance_read sdk this documentId =
     try_catch
       (await_then (sync (doc sdk (fsi_db this) (fsi_collectionName this) documentId)) (\<lambda>docRef.
        await_then (getDoc sdk docRef) (\<lambda>docSnap.
        if snap_exists docSnap then resolve (data_of docSnap) else resolve JsNull)))
       (throw_new_Error ''Error reading document: '')"

definition FirestoreServiceInstance_update ::
  "'w firestore_sdk \<Rightarrow> FirestoreServiceInstance \<Rightarrow> string \<Rightarrow> js_object
     \<Rightarrow> ('w, js_object) async" where
  "FirestoreServiceInstance_update sdk this documentId data =
     try_catch
       (await_then (sync (doc sdk (fsi_db this) (fsi_collectionName this) documentId)) (\<lambda>docRef.
        await_then (updateDoc sdk docRef data) (\<lambda>_.
        await_then (getDoc sdk docRef) (\<lambda>docSnap.
        resolve (with_id (ref_id docRef) (spread (snap_data docSnap)))))))
       (throw_new_Error ''Error updating document: '')"

definition FirestoreServiceInstance_delete ::
  "'w firestore_sdk \<Rightarrow> FirestoreServiceInstance \<Rightarrow> string \<Rightarrow> ('w, unit) async" where
  "FirestoreServiceInstance_delete sdk this documentId =
     try_catch
       (await_then (sync (doc sdk (fsi_db this) (fsi_collectionName this) documentId)) (\<lambda>docRef.
        deleteDoc sdk docRef))
       (throw_new_Error ''Error deleting document: '')"

definition FirestoreServiceInstance_getAll ::
  "'w firestore_sdk \<Rightarrow> FirestoreServiceInstance \<Rightarrow> ('w, js_object list) async" where
  "FirestoreServiceInstance_getAll sdk this =
     try_catch
       (await_then (sync (collection sdk (fsi_db this) (fsi_collectionName this))) (\<lambda>collectionRef.
        await_then (getDocs sdk (as_Query collectionRef)) (\<lambda>docs.
        resolve (map (\<lambda>d. with_id (qdoc_id d) (qdoc_data d)) docs))))
       (throw_new_Error ''Error getting all documents: '')"

definition FirestoreServiceInstance_query ::
  "'w firestore_sdk \<Rightarrow> FirestoreServiceInstance \<Rightarrow> QueryConstraint list
     \<Rightarrow> ('w, js_object list) async" where
  "FirestoreServiceInstance_query sdk this conditions =
     try_catch
       (await_then (sync (collection sdk (fsi_db this) (fsi_collectionName this))) (\<lambda>collectionRef.
        await_then (sync (query sdk (as_Query collectionRef) conditions)) (\<lambda>q.
        await_then (getDocs sdk q) (\<lambda>docs.
        resolve (map (\<lambda>d. with_id (qdoc_id d) (qdoc_data d)) docs)))))
       (throw_new_Error ''Error querying documents: '')"

section \<open>An in-memory backend\<close>

text \<open>
  Modelled from the spec: the remote document store and the identity backend, which are
  services outside the repository. The spec describes the store as named collections of
  documents, each a mapping from field names to values under an identifier unique in its
  collection; a write under an identifier replaces the document, an update merges field
  by field (fields given overwrite, the others stay), a delete removes the document and
  is idempotent, a listing returns every document of the collection and a query those
  that satisfy all of its constraints. An update of a missing document is rejected.
  Every call may also fail with a backend fault: the parameter \<open>faults\<close> says which
  call throws what, and \<open>satisfies\<close> is the backend's reading of a constraint.
\<close>

record backend =
  documents :: "((string \<times> string) \<times> js_object) list"
  generated :: nat
  console :: "(string \<times> js_object list) list"
  popups :: "AuthProvider list"

datatype sdk_call =
    Call_collection string
  | Call_doc string string
  | Call_doc_auto string
  | Call_setDoc DocumentReference
  | Call_getDoc DocumentReference
  | Call_getDocs Query
  | Call_updateDoc DocumentReference
  | Call_deleteDoc DocumentReference
  | Call_constraint QueryConstraint

fun store_put :: "'k \<Rightarrow> 'v \<Rightarrow> ('k \<times> 'v) list \<Rightarrow> ('k \<times> 'v) list" where
  "store_put k v [] = [(k, v)]"
| "store_put k v ((k', v') # rest) =
     (if k' = k then (k, v) # rest else (k', v') # store_put k v rest)"

definition store_remove :: "'k \<Rightarrow> ('k \<times> 'v) list \<Rightarrow> ('k \<times> 'v) list" where
  "store_remove k entries = filter (\<lambda>entry. fst entry \<noteq> k) entries"

fun first_fault :: "(sdk_call \<Rightarrow> js_value option) \<Rightarrow> sdk_call list \<Rightarrow> js_value option" where
  "first_fault faults [] = None"
| "first_fault faults (call # calls) =
     (case faults call of Some error \<Rightarrow> Some error | None \<Rightarrow> first_fault faults calls)"

definition checked :: "(sdk_call \<Rightarrow> js_value option) \<Rightarrow> sdk_call list \<Rightarrow> 'a \<Rightarrow> js_value + 'a" where
  "checked faults calls outcome =
     (case first_fault faults calls of Some error \<Rightarrow> Inl error | None \<Rightarrow> Inr outcome)"

definition backend_call ::
  "(sdk_call \<Rightarrow> js_value option) \<Rightarrow> sdk_call \<Rightarrow> (backend, 'a) async \<Rightarrow> (backend, 'a) async" where
  "backend_call faults call action w =
     (case faults call of Some error \<Rightarrow> (Inl error, w) | None \<Rightarrow> action w)"

definition ref_key :: "DocumentReference \<Rightarrow> string \<times> string" where
  "ref_key docRef = (ref_collection docRef, ref_id docRef)"

text \<open>
  Modelled from the spec: the write, read, update and delete of one document in the remote
  store. A write replaces the document under the identifier; an update merges field by
  field into the document that exists (a field given overwrites, a field not given stays)
  and is rejected when there is none; a delete is idempotent.
\<close>

definition memory_setDoc :: "DocumentReference \<Rightarrow> js_object \<Rightarrow> (backend, unit) async" where
  "memory_setDoc docRef data w =
     (Inr (), w\<lparr>documents := store_put (ref_key docRef) data (documents w)\<rparr>)"

definition memory_getDoc :: "DocumentReference \<Rightarrow> (backend, DocumentSnapshot) async" where
  "memory_getDoc docRef w =
     (Inr (DocumentSnapshot (ref_id docRef) (map_of (documents w) (ref_key docRef))), w)"

definition memory_updateDoc :: "DocumentReference \<Rightarrow> js_object \<Rightarrow> (backend, unit) async" where
  "memory_updateDoc docRef data w =
     (case map_of (documents w) (ref_key docRef) of
        None \<Rightarrow> (Inl (FirestoreError ''not-found'' ''No document to update''), w)
      | Some old \<Rightarrow>
          (Inr (), w\<lparr>documents := store_put (ref_key docRef) (old ++ data) (documents w)\<rparr>))"

definition memory_deleteDoc :: "DocumentReference \<Rightarrow> (backend, unit) async" where
  "memory_deleteDoc docRef w =
     (Inr (), w\<lparr>documents := store_remove (ref_key docRef) (documents w)\<rparr>)"

text \<open>
  Modelled from the spec: the listing of the remote store. It returns the documents of the
  query's collection that satisfy every constraint of the query, in the store's order.
\<close>

definition memory_getDocs ::
  "(QueryConstraint \<Rightarrow> js_object \<Rightarrow> bool) \<Rightarrow> Query \<Rightarrow> (backend, QueryDocumentSnapshot list) async" where
  "memory_getDocs satisfies q w =
     (Inr (map (\<lambda>entry. QueryDocumentSnapshot (snd (fst entry)) (snd entry))
            (filter (\<lambda>entry. fst (fst entry) = query_collection q
                      \<and> list_all (\<lambda>c. satisfies c (snd entry)) (query_constraints q))
               (documents w))), w)"

definition memory_doc_auto :: "CollectionReference \<Rightarrow> (backend, DocumentReference) async" where
  "memory_doc_auto collectionRef w =
     (Inr (DocumentReference (coll_path collectionRef) (''auto-'' @ show_nat (generated w))),
      w\<lparr>generated := Suc (generated w)\<rparr>)"

text \<open>
  Modelled from the spec: the Firestore SDK over the store above. A call that \<open>faults\<close>
  refuses throws and changes nothing; \<^verbatim>\<open>query\<close> throws for the first constraint refused
  and otherwise adds the constraints to the query.
\<close>

definition memory_firestore ::
  "(sdk_call \<Rightarrow> js_value option) \<Rightarrow> (QueryConstraint \<Rightarrow> js_object \<Rightarrow> bool)
     \<Rightarrow> backend firestore_sdk" where
  "memory_firestore faults satisfies =
     \<lparr>collection = (\<lambda>db name. checked faults [Call_collection name] (CollectionReference name)),
      doc = (\<lambda>db name ident. checked faults [Call_doc name ident] (DocumentReference name ident)),
      doc_in = (\<lambda>collectionRef ident.
        checked faults [Call_doc (coll_path collectionRef) ident]
          (DocumentReference (coll_path collectionRef) ident)),
      doc_auto = (\<lambda>collectionRef.
        backend_call faults (Call_doc_auto (coll_path collectionRef)) (memory_doc_auto collectionRef)),
      setDoc = (\<lambda>docRef data. backend_call faults (Call_setDoc docRef) (memory_setDoc docRef data)),
      getDoc = (\<lambda>docRef. backend_call faults (Call_getDoc docRef) (memory_getDoc docRef)),
      getDocs = (\<lambda>q. backend_call faults (Call_getDocs q) (memory_getDocs satisfies q)),
      updateDoc = (\<lambda>docRef data.
        backend_call faults (Call_updateDoc docRef) (memory_updateDoc docRef data)),
      deleteDoc = (\<lambda>docRef. backend_call faults (Call_deleteDoc docRef) (memory_deleteDoc docRef)),
      query = (\<lambda>q conditions.
        checked faults (map Call_constraint conditions)
          (Query (query_collection q) (query_constraints q @ conditions))),
      console_log = (\<lambda>label docs w. w\<lparr>console := console w @ [(label, docs)]\<rparr>)\<rparr>"

text \<open>
  Modelled from the spec: the identity backend. A sign-in with a provider is recorded in
  \<open>popups\<close> and ends as \<open>outcome\<close> says: with a credential or with the provider's error.
\<close>

definition memory_auth :: "(AuthProvider \<Rightarrow> js_value + UserCredential) \<Rightarrow> backend auth_sdk" where
  "memory_auth outcome =
     \<lparr>signInWithPopup = (\<lambda>auth provider w. (outcome provider, w\<lparr>popups := popups w @ [provider]\<rparr>))\<rparr>"

definition empty_backend :: backend where
  "empty_backend = \<lparr>documents = [], generated = 0, console = [], popups = []\<rparr>"

definition no_faults :: "sdk_call \<Rightarrow> js_value option" where
  "no_faults call = None"

text \<open>The one constraint the examples use: \<^verbatim>\<open>where(field, "==", value)\<close>.\<close>

fun field_equals :: "QueryConstraint \<Rightarrow> js_object \<Rightarrow> bool" where
  "field_equals (Where field operator v) data = (data field = Some v)"

section \<open>Example data\<close>

definition sample_config :: js_object where
  "sample_config =
     [''apiKey'' \<mapsto> JsString ''tu-api-key'',
      ''authDomain'' \<mapsto> JsString ''tu-auth-domain'',
      ''projectId'' \<mapsto> JsString ''tu-project-id'',
      ''storageBucket'' \<mapsto> JsString ''tu-storage-bucket'',
      ''messagingSenderId'' \<mapsto> JsString ''tu-messaging-sender-id'',
      ''appId'' \<mapsto> JsString ''tu-app-id'']"

text \<open>A configuration object without \<^verbatim>\<open>messagingSenderId\<close>.\<close>

definition partial_config :: js_object where
  "partial_config =
     [''apiKey'' \<mapsto> JsString ''tu-api-key'',
      ''authDomain'' \<mapsto> JsString ''tu-auth-domain'',
      ''projectId'' \<mapsto> JsString ''tu-project-id'',
      ''storageBucket'' \<mapsto> JsString ''tu-storage-bucket'',
      ''appId'' \<mapsto> JsString ''tu-app-id'']"

text \<open>The instance the constructor builds from a configuration when no SDK call throws.\<close>

definition instance_of :: "js_object \<Rightarrow> FirebaseInit" where
  "instance_of config =
     \<lparr>init_app = FirebaseApp config,
      init_db = Firestore (FirebaseApp config),
      init_auth = Auth (FirebaseApp config),
      init_firestoreService = FirestoreService_new (Firestore (FirebaseApp config)),
      init_analytics = Analytics (FirebaseApp config),
      init_authService = FirebaseAuthService_new (Auth (FirebaseApp config))\<rparr>"

text \<open>An SDK whose \<^verbatim>\<open>getAuth\<close> throws, as for a configuration it does not accept.\<close>

definition rejecting_sdk :: app_sdk where
  "rejecting_sdk =
     accepting_sdk\<lparr>getAuth := (\<lambda>app. Inl (auth_error ''auth/invalid-api-key''))\<rparr>"

definition sample_outcome :: "AuthProvider \<Rightarrow> js_value + UserCredential" where
  "sample_outcome provider = Inr (UserCredential ''uid-1'' provider)"

definition sample_db :: Firestore where
  "sample_db = Firestore (FirebaseApp sample_config)"

definition permission_denied :: js_value where
  "permission_denied = FirestoreError ''permission-denied'' ''Missing or insufficient permissions.''"

text \<open>A backend in which exactly one call is refused.\<close>

definition only_fault :: "sdk_call \<Rightarrow> sdk_call \<Rightarrow> js_value option" where
  "only_fault refused call = (if call = refused then Some permission_denied else None)"

definition sample_user :: js_object where
  "sample_user = [''name'' \<mapsto> JsString ''John Doe'', ''email'' \<mapsto> JsString ''john@example.com'']"

definition users_backend :: backend where
  "users_backend = empty_backend\<lparr>documents := [((''users'', ''u1''), sample_user)]\<rparr>"


definition items_backend :: backend where
  "items_backend =
     empty_backend\<lparr>documents :=
       [((''items'', ''doc1''), [''a'' \<mapsto> JsNumber 1, ''b'' \<mapsto> JsNumber 2])]\<rparr>"

section \<open>What an error message mentions\<close>

fun starts_with :: "string \<Rightarrow> string \<Rightarrow> bool" where
  "starts_with [] text = True"
| "starts_with (c # cs) [] = False"
| "starts_with (c # cs) (d # ds) = (c = d \<and> starts_with cs ds)"

text \<open>\<open>mentions text word\<close>: the word occurs in the text as a contiguous piece.\<close>

fun mentions :: "string \<Rightarrow> string \<Rightarrow> bool" where
  "mentions [] word = (word = [])"
| "mentions (c # cs) word = (starts_with word (c # cs) \<or> mentions cs word)"

section \<open>The lifecycle manager is a singleton\<close>

lemma getInstance_existing:
  "getInstance sdk firebaseConfig (Some existing) = (Inr existing, Some existing)"
  by (simp add: getInstance_def)

lemma getInstance_missing_config:
  "getInstance sdk None None =
     (Inl (new_Error ''Firebase config is required for initialization''), None)"
  by (simp add: getInstance_def)

lemma getInstance_first:
  "FirebaseInit_new sdk config = Inr created \<Longrightarrow>
     getInstance sdk (Some config) None = (Inr created, Some created)"
  by (simp add: getInstance_def)

lemma getInstance_calls_existing:
  "getInstance_calls sdk configs (Some existing) = replicate (length configs) (Inr existing)"
  by (induction configs) (simp_all add: getInstance_existing)

lemma getInstance_calls_without_config:
  "getInstance_calls sdk (replicate n None @ configs) None =
     replicate n (Inl (new_Error ''Firebase config is required for initialization''))
       @ getInstance_calls sdk configs None"
  by (induction n) (simp_all add: getInstance_missing_config)

lemma FirebaseInit_new_accepting:
  "FirebaseInit_new accepting_sdk config = Inr (instance_of config)"
  by (simp add: FirebaseInit_new_def accepting_sdk_def instance_of_def)

text \<open>
  Claim C1. A call of \<^verbatim>\<open>getInstance\<close> without a configuration while no instance exists
  fails with an error. In every sequence of calls that starts with no instance, the first
  call that passes a configuration object builds the instance (provided the SDK's
  initialisation calls return for it), and every later call, whatever it passes, returns
  that same instance: the calls before it, all without a configuration, fail; that call and
  all \<open>length later\<close> calls after it return \<open>created\<close>.
\<close>

theorem getInstance_singleton:
  "getInstance sdk None None =
     (Inl (new_Error ''Firebase config is required for initialization''), None)
   \<and> (FirebaseInit_new sdk config = Inr created \<longrightarrow>
        getInstance_calls sdk (replicate n None @ Some config # later) None =
          replicate n (Inl (new_Error ''Firebase config is required for initialization''))
            @ replicate (Suc (length later)) (Inr created))"
  by (simp add: getInstance_missing_config getInstance_calls_without_config
      getInstance_first getInstance_calls_existing)

theorem getInstance_singleton_witness:
  "FirebaseInit_new accepting_sdk sample_config = Inr (instance_of sample_config)
   \<and> getInstance_calls accepting_sdk
        [None, Some sample_config, None, Some partial_config, Some sample_config] None =
        [Inl (new_Error ''Firebase config is required for initialization''),
         Inr (instance_of sample_config), Inr (instance_of sample_config),
         Inr (instance_of sample_config), Inr (instance_of sample_config)]"
  using getInstance_singleton [of accepting_sdk sample_config "instance_of sample_config"
      "Suc 0" "[None, Some partial_config, Some sample_config]"]
  by (simp add: FirebaseInit_new_accepting getInstance_def)

text \<open>
  Claim C9. Once a first call has built the instance, any later call (with any
  configuration or none, and whatever the SDK would then answer) returns that instance and
  leaves the static field as it is; the store, auth and analytics handles of the instance
  are the ones the SDK returned for the first configuration.
\<close>

theorem getInstance_later_calls_frame:
  assumes "getInstance sdk (Some config) None = (Inr created, instance)"
  shows "instance = Some created
    \<and> getInstance sdk' other instance = (Inr created, instance)
    \<and> (\<exists>app. initializeApp sdk config = Inr app
          \<and> getFirestore sdk app = Inr (init_db created)
          \<and> getAuth sdk app = Inr (init_auth created)
          \<and> getAnalytics sdk app = Inr (init_analytics created))"
  using assms
  by (auto simp: getInstance_def FirebaseInit_new_def split: sum.splits)

theorem getInstance_later_calls_frame_witness:
  "getInstance accepting_sdk (Some sample_config) None
     = (Inr (instance_of sample_config), Some (instance_of sample_config))
   \<and> getInstance accepting_sdk (Some partial_config) (Some (instance_of sample_config))
     = (Inr (instance_of sample_config), Some (instance_of sample_config))
   \<and> init_db (instance_of sample_config) = Firestore (FirebaseApp sample_config)"
proof -
  have first: "getInstance accepting_sdk (Some sample_config) None
     = (Inr (instance_of sample_config), Some (instance_of sample_config))"
    by (simp add: getInstance_def FirebaseInit_new_accepting)
  from getInstance_later_calls_frame [OF first, of accepting_sdk "Some partial_config"] first
  show ?thesis by (simp add: instance_of_def)
qed

section \<open>What the first construction checks\<close>

lemma FirebaseConfig_object_required:
  "{''apiKey'', ''authDomain'', ''projectId'', ''storageBucket'', ''messagingSenderId'', ''appId''}
     \<subseteq> dom (FirebaseConfig_object config)"
  by (simp add: FirebaseConfig_object_def Let_def split: option.splits)

text \<open>
  Claim C2, as stated, fails: \<^verbatim>\<open>getInstance\<close> takes any object and never looks at its
  fields. A configuration object without \<^verbatim>\<open>messagingSenderId\<close> is accepted on the first
  construction whenever the SDK accepts it.
\<close>

theorem getInstance_partial_config_counterexample:
  "partial_config ''messagingSenderId'' = None
   \<and> getInstance accepting_sdk (Some partial_config) None
       = (Inr (instance_of partial_config), Some (instance_of partial_config))"
  by (simp add: partial_config_def getInstance_def FirebaseInit_new_accepting)

text \<open>
  Claim C2, amended. On the first construction \<^verbatim>\<open>getInstance\<close> fails with its own error
  exactly when the configuration object itself is missing. An object that is passed is
  handed to \<^verbatim>\<open>initializeApp\<close> as it is, whatever fields it has: when the four SDK calls
  of the constructor return, the instance is built from the handles they return; the call
  fails exactly when one of the four throws, with the value that call threw, and then no
  instance is stored. The six required fields are required by the type \<^verbatim>\<open>FirebaseConfig\<close>
  that \<^verbatim>\<open>initializeFirebaseLib\<close> takes: every value of that type has them, and only
  \<^verbatim>\<open>measurementId\<close> may be absent.
\<close>

theorem getInstance_checks_presence_only:
  "getInstance sdk None None =
     (Inl (new_Error ''Firebase config is required for initialization''), None)
   \<and> (initializeApp sdk config = Inr app \<and> getFirestore sdk app = Inr db
        \<and> getAuth sdk app = Inr auth \<and> getAnalytics sdk app = Inr analytics \<longrightarrow>
        (\<exists>created. getInstance sdk (Some config) None = (Inr created, Some created)
           \<and> init_app created = app \<and> init_db created = db
           \<and> init_auth created = auth \<and> init_analytics created = analytics))
   \<and> (getInstance sdk (Some config) None = (Inl error, stored) \<longleftrightarrow>
        stored = None
        \<and> (initializeApp sdk config = Inl error
           \<or> (\<exists>a. initializeApp sdk config = Inr a
                \<and> (getFirestore sdk a = Inl error
                   \<or> (\<exists>d. getFirestore sdk a = Inr d
                        \<and> (getAuth sdk a = Inl error
                           \<or> (\<exists>u. getAuth sdk a = Inr u
                                \<and> getAnalytics sdk a = Inl error)))))))
   \<and> {''apiKey'', ''authDomain'', ''projectId'', ''storageBucket'', ''messagingSenderId'', ''appId''}
        \<subseteq> dom (FirebaseConfig_object typed)
   \<and> initializeFirebaseLib sdk typed None =
        getInstance sdk (Some (FirebaseConfig_object typed)) None"
proof (intro conjI impI)
  show "getInstance sdk None None =
     (Inl (new_Error ''Firebase config is required for initialization''), None)"
    by (rule getInstance_missing_config)
next
  assume "initializeApp sdk config = Inr app \<and> getFirestore sdk app = Inr db
        \<and> getAuth sdk app = Inr auth \<and> getAnalytics sdk app = Inr analytics"
  then show "\<exists>created. getInstance sdk (Some config) None = (Inr created, Some created)
           \<and> init_app created = app \<and> init_db created = db
           \<and> init_auth created = auth \<and> init_analytics created = analytics"
    by (simp add: getInstance_def FirebaseInit_new_def)
next
  show "getInstance sdk (Some config) None = (Inl error, stored) \<longleftrightarrow>
        stored = None
        \<and> (initializeApp sdk config = Inl error
           \<or> (\<exists>a. initializeApp sdk config = Inr a
                \<and> (getFirestore sdk a = Inl error
                   \<or> (\<exists>d. getFirestore sdk a = Inr d
                        \<and> (getAuth sdk a = Inl error
                           \<or> (\<exists>u. getAuth sdk a = Inr u
                                \<and> getAnalytics sdk a = Inl error))))))"
    by (auto simp: getInstance_def FirebaseInit_new_def split: sum.splits)
next
  show "{''apiKey'', ''authDomain'', ''projectId'', ''storageBucket'', ''messagingSenderId'', ''appId''}
        \<subseteq> dom (FirebaseConfig_object typed)"
    by (rule FirebaseConfig_object_required)
next
  show "initializeFirebaseLib sdk typed None =
        getInstance sdk (Some (FirebaseConfig_object typed)) None"
    by (simp add: initializeFirebaseLib_def)
qed

theorem getInstance_checks_presence_only_witness:
  "getInstance accepting_sdk (Some partial_config) None
     = (Inr (instance_of partial_config), Some (instance_of partial_config))
   \<and> getInstance rejecting_sdk (Some partial_config) None
     = (Inl (auth_error ''auth/invalid-api-key''), None)"
proof
  have "initializeApp accepting_sdk partial_config = Inr (FirebaseApp partial_config)
      \<and> getFirestore accepting_sdk (FirebaseApp partial_config)
          = Inr (Firestore (FirebaseApp partial_config))
      \<and> getAuth accepting_sdk (FirebaseApp partial_config) = Inr (Auth (FirebaseApp partial_config))
      \<and> getAnalytics accepting_sdk (FirebaseApp partial_config)
          = Inr (Analytics (FirebaseApp partial_config))"
    by (simp add: accepting_sdk_def)
  with getInstance_checks_presence_only [where sdk = accepting_sdk and config = partial_config
      and app = "FirebaseApp partial_config", THEN conjunct2, THEN conjunct1]
  obtain created where built: "getInstance accepting_sdk (Some partial_config) None
        = (Inr created, Some created)"
    and "init_app created = FirebaseApp partial_config"
    by blast
  moreover have "getInstance accepting_sdk (Some partial_config) None
      = (Inr (instance_of partial_config), Some (instance_of partial_config))"
    by (simp add: getInstance_def FirebaseInit_new_accepting)
  ultimately show "getInstance accepting_sdk (Some partial_config) None
     = (Inr (instance_of partial_config), Some (instance_of partial_config))"
    by simp
next
  have "initializeApp rejecting_sdk partial_config = Inr (FirebaseApp partial_config)"
    and "getFirestore rejecting_sdk (FirebaseApp partial_config)
      = Inr (Firestore (FirebaseApp partial_config))"
    and "getAuth rejecting_sdk (FirebaseApp partial_config)
      = Inl (auth_error ''auth/invalid-api-key'')"
    by (simp_all add: rejecting_sdk_def accepting_sdk_def)
  then show "getInstance rejecting_sdk (Some partial_config) None
     = (Inl (auth_error ''auth/invalid-api-key''), None)"
    using getInstance_checks_presence_only [where sdk = rejecting_sdk and config = partial_config
      and error = "auth_error ''auth/invalid-api-key''" and stored = None,
      THEN conjunct2, THEN conjunct2, THEN conjunct1]
    by blast
qed

section \<open>The auth error normalizer\<close>

text \<open>
  What the \<^verbatim>\<open>switch\<close> does: it compares \<^verbatim>\<open>error.message\<close> with seven labels, each an
  error code of the auth SDK, and passes every other message through.
\<close>

lemma handleAuthError_switch:
  "handleAuthError (JsError name ''auth/email-already-in-use'' code own)
     = new_Error ''This email is already registered''
   \<and> handleAuthError (JsError name ''auth/invalid-email'' code own)
       = new_Error ''Invalid email format''
   \<and> handleAuthError (JsError name ''auth/operation-not-allowed'' code own)
       = new_Error ''Operation not allowed''
   \<and> handleAuthError (JsError name ''auth/weak-password'' code own)
       = new_Error ''Password is too weak''
   \<and> handleAuthError (JsError name ''auth/user-disabled'' code own)
       = new_Error ''This user account has been disabled''
   \<and> handleAuthError (JsError name ''auth/user-not-found'' code own) = new_Error ''User not found''
   \<and> handleAuthError (JsError name ''auth/wrong-password'' code own) = new_Error ''Invalid password''
   \<and> (message \<notin> {''auth/email-already-in-use'', ''auth/invalid-email'',
          ''auth/operation-not-allowed'', ''auth/weak-password'', ''auth/user-disabled'',
          ''auth/user-not-found'', ''auth/wrong-password''} \<longrightarrow>
        handleAuthError (JsError name message code own) = new_Error message)"
  by (simp add: handleAuthError_def)

text \<open>
  Claim C4 does not hold of the code. The seven labels of the \<^verbatim>\<open>switch\<close> are error codes,
  and the auth SDK puts the code of an error in its \<^verbatim>\<open>code\<close> property; the \<^verbatim>\<open>switch\<close>
  reads \<^verbatim>\<open>message\<close>, which for such an error is \<^verbatim>\<open>"Firebase: Error (<code>)."\<close>. So the
  error the backend raises for each of the seven known codes takes the default branch and
  keeps the backend's message, where the table has a stable message for it; the same
  happens to the bare code of the table as a message. The result never depends on the
  \<^verbatim>\<open>code\<close> property.
\<close>

theorem handleAuthError_reads_message_not_code:
  "handleAuthError
     (JsError ''FirebaseError'' ''Firebase: Error (auth/email-already-in-use).''
        (Some ''auth/email-already-in-use'') None)
     = JsError ''Error'' ''Firebase: Error (auth/email-already-in-use).'' None None
   \<and> handleAuthError (auth_error ''auth/email-already-in-use'')
     = new_Error ''Firebase: Error (auth/email-already-in-use).''
   \<and> handleAuthError (auth_error ''auth/invalid-email'')
     = new_Error ''Firebase: Error (auth/invalid-email).''
   \<and> handleAuthError (auth_error ''auth/operation-not-allowed'')
     = new_Error ''Firebase: Error (auth/operation-not-allowed).''
   \<and> handleAuthError (auth_error ''auth/weak-password'')
     = new_Error ''Firebase: Error (auth/weak-password).''
   \<and> handleAuthError (auth_error ''auth/user-disabled'')
     = new_Error ''Firebase: Error (auth/user-disabled).''
   \<and> handleAuthError (auth_error ''auth/user-not-found'')
     = new_Error ''Firebase: Error (auth/user-not-found).''
   \<and> handleAuthError (auth_error ''auth/wrong-password'')
     = new_Error ''Firebase: Error (auth/wrong-password).''
   \<and> handleAuthError (JsError ''Error'' ''email-already-in-use'' (Some ''email-already-in-use'') None)
     = new_Error ''email-already-in-use''
   \<and> handleAuthError (JsError name message code own)
     = handleAuthError (JsError name message other_code own)"
  by (simp add: handleAuthError_def auth_error_def FirebaseError_def new_Error_def)

text \<open>
  Claim C10. For a thrown value that is not an \<^verbatim>\<open>Error\<close> instance (a string, a plain
  object, \<^verbatim>\<open>undefined\<close>, ...) the normalizer returns an \<^verbatim>\<open>Error\<close> with the fixed message
  and nothing of the original value.
\<close>

theorem handleAuthError_not_an_Error:
  "\<not> instanceof_Error error \<Longrightarrow>
     handleAuthError error = new_Error ''An authentication error occurred''"
  by (simp add: handleAuthError_def)

theorem handleAuthError_not_an_Error_witness:
  "handleAuthError (JsString ''auth/invalid-email'') = new_Error ''An authentication error occurred''
   \<and> handleAuthError (JsObject [''code'' \<mapsto> JsString ''auth/weak-password''])
       = new_Error ''An authentication error occurred''"
  using handleAuthError_not_an_Error [of "JsString ''auth/invalid-email''"]
    handleAuthError_not_an_Error [of "JsObject [''code'' \<mapsto> JsString ''auth/weak-password'']"]
  by simp

section \<open>Sign-in with a provider\<close>

lemma unsupported_message_passes:
  "handleAuthError (new_Error (''Provider '' @ providerType @ '' not supported''))
     = new_Error (''Provider '' @ providerType @ '' not supported'')"
  by (simp add: handleAuthError_def new_Error_def)

lemma providers_lookup:
  "as_providers (FirebaseAuthService_new auth) providerType =
     (if providerType = ''twitter'' then Some TwitterAuthProvider
      else if providerType = ''github'' then Some GithubAuthProvider
      else if providerType = ''facebook'' then Some FacebookAuthProvider
      else if providerType = ''google'' then Some GoogleAuthProvider
      else None)"
  by (simp add: FirebaseAuthService_new_def)

lemma loginWithProvider_missing:
  assumes "as_providers this providerType = None"
  shows "loginWithProvider sdk this providerType w
    = (Inl (new_Error (''Provider '' @ providerType @ '' not supported'')), w)"
proof -
  have "loginWithProvider sdk this providerType w
    = (Inl (handleAuthError (new_Error (''Provider '' @ providerType @ '' not supported''))), w)"
    using assms by (simp add: loginWithProvider_def try_catch_def throw_def)
  then show ?thesis by (simp only: unsupported_message_passes)
qed

lemma loginWithProvider_found:
  assumes "as_providers this providerType = Some provider"
  shows "loginWithProvider sdk this providerType w
    = try_catch (signInWithPopup sdk (as_auth this) provider)
        (\<lambda>error. throw (handleAuthError error)) w"
  using assms by (simp add: loginWithProvider_def try_catch_def)

text \<open>
  Claim C5. For a provider identifier outside \<^verbatim>\<open>google\<close>, \<^verbatim>\<open>facebook\<close>, \<^verbatim>\<open>github\<close>,
  \<^verbatim>\<open>twitter\<close> the registry has no entry and \<^verbatim>\<open>loginWithProvider\<close> fails with the error
  "Provider ... not supported", leaving the world as it was whatever the identity backend
  is: no call reaches it. For an identifier of the set the lookup finds a provider, and
  the sign-in is the backend's, with its errors normalized.
\<close>

theorem loginWithProvider_unsupported:
  "(providerType \<notin> {''google'', ''facebook'', ''github'', ''twitter''} \<longrightarrow>
      as_providers (FirebaseAuthService_new auth) providerType = None
      \<and> loginWithProvider sdk (FirebaseAuthService_new auth) providerType w
          = (Inl (new_Error (''Provider '' @ providerType @ '' not supported'')), w))
   \<and> (providerType \<in> {''google'', ''facebook'', ''github'', ''twitter''} \<longrightarrow>
        (\<exists>provider. as_providers (FirebaseAuthService_new auth) providerType = Some provider
           \<and> loginWithProvider sdk (FirebaseAuthService_new auth) providerType w
               = try_catch (signInWithPopup sdk auth provider)
                   (\<lambda>error. throw (handleAuthError error)) w))"
proof (intro conjI impI)
  assume "providerType \<notin> {''google'', ''facebook'', ''github'', ''twitter''}"
  then show none: "as_providers (FirebaseAuthService_new auth) providerType = None"
    by (simp add: providers_lookup)
  show "loginWithProvider sdk (FirebaseAuthService_new auth) providerType w
          = (Inl (new_Error (''Provider '' @ providerType @ '' not supported'')), w)"
    by (rule loginWithProvider_missing [OF none])
next
  assume "providerType \<in> {''google'', ''facebook'', ''github'', ''twitter''}"
  then obtain provider
    where some: "as_providers (FirebaseAuthService_new auth) providerType = Some provider"
    by (auto simp: providers_lookup)
  have "as_auth (FirebaseAuthService_new auth) = auth"
    by (simp add: FirebaseAuthService_new_def)
  with loginWithProvider_found [OF some, of sdk w] some
  show "\<exists>provider. as_providers (FirebaseAuthService_new auth) providerType = Some provider
           \<and> loginWithProvider sdk (FirebaseAuthService_new auth) providerType w
               = try_catch (signInWithPopup sdk auth provider)
                   (\<lambda>error. throw (handleAuthError error)) w"
    by simp
qed

theorem loginWithProvider_unsupported_witness:
  "loginWithProvider (memory_auth sample_outcome) (FirebaseAuthService_new (Auth (FirebaseApp sample_config)))
      ''unknown'' empty_backend
     = (Inl (new_Error ''Provider unknown not supported''), empty_backend)
   \<and> popups empty_backend = []
   \<and> loginWithProvider (memory_auth sample_outcome) (FirebaseAuthService_new (Auth (FirebaseApp sample_config)))
      ''github'' empty_backend
     = (Inr (UserCredential ''uid-1'' GithubAuthProvider), empty_backend\<lparr>popups := [GithubAuthProvider]\<rparr>)"
  using loginWithProvider_unsupported [of "''unknown''" "Auth (FirebaseApp sample_config)"
      "memory_auth sample_outcome" empty_backend]
    loginWithProvider_unsupported [of "''github''" "Auth (FirebaseApp sample_config)"
      "memory_auth sample_outcome" empty_backend]
  by (auto simp: empty_backend_def memory_auth_def sample_outcome_def try_catch_def
      FirebaseAuthService_new_def)

section \<open>The document clients\<close>

lemmas async_defs = try_catch_def await_then_def sync_def resolve_def throw_def

lemmas memory_defs = memory_firestore_def checked_def backend_call_def ref_key_def
  memory_setDoc_def memory_getDoc_def memory_updateDoc_def memory_deleteDoc_def
  memory_getDocs_def memory_doc_auto_def

text \<open>
  The collection-scoped client does what the generic client does at its bound collection;
  only \<^verbatim>\<open>getAll\<close> differs, by the line the generic client writes to the console.
\<close>

lemma FirestoreServiceInstance_create_eq:
  "FirestoreServiceInstance_create sdk inst =
     FirestoreService_create sdk (FirestoreService_new (fsi_db inst)) (fsi_collectionName inst)"
  by (simp add: FirestoreServiceInstance_create_def FirestoreService_create_def
      FirestoreService_new_def fun_eq_iff)

lemma FirestoreServiceInstance_update_eq:
  "FirestoreServiceInstance_update sdk inst =
     FirestoreService_update sdk (FirestoreService_new (fsi_db inst)) (fsi_collectionName inst)"
  by (simp add: FirestoreServiceInstance_update_def FirestoreService_update_def
      FirestoreService_new_def fun_eq_iff)

lemma FirestoreServiceInstance_delete_eq:
  "FirestoreServiceInstance_delete sdk inst =
     FirestoreService_delete sdk (FirestoreService_new (fsi_db inst)) (fsi_collectionName inst)"
  by (simp add: FirestoreServiceInstance_delete_def FirestoreService_delete_def
      FirestoreService_new_def fun_eq_iff)

lemma FirestoreServiceInstance_query_eq:
  "FirestoreServiceInstance_query sdk inst =
     FirestoreService_query sdk (FirestoreService_new (fsi_db inst)) (fsi_collectionName inst)"
  by (simp add: FirestoreServiceInstance_query_def FirestoreService_query_def
      FirestoreService_new_def fun_eq_iff)

lemma FirestoreServiceInstance_read_eq:
  "FirestoreServiceInstance_read sdk inst =
     FirestoreService_read sdk (FirestoreService_new (fsi_db inst)) (fsi_collectionName inst)"
  by (simp add: FirestoreServiceInstance_read_def FirestoreService_read_def
      FirestoreService_new_def fun_eq_iff)

lemma FirestoreServiceInstance_getAll_eq:
  "fst (FirestoreServiceInstance_getAll sdk inst w) =
     fst (FirestoreService_getAll sdk (FirestoreService_new (fsi_db inst)) (fsi_collectionName inst) w)"
  by (simp add: FirestoreServiceInstance_getAll_def FirestoreService_getAll_def
      FirestoreService_new_def async_defs Let_def split: sum.splits prod.splits)

lemma throw_new_Error_outcome:
  "throw_new_Error phrase cause w = (Inl (raised phrase cause), w)"
  by (simp add: throw_new_Error_def throw_def)

lemma FirestoreService_read_outcome:
  "FirestoreService_read sdk this collectionName documentId w =
     (case doc sdk (fs_db this) collectionName documentId of
        Inl cause \<Rightarrow> throw_new_Error ''Error reading document: '' cause w
      | Inr docRef \<Rightarrow>
          (case getDoc sdk docRef w of
             (Inl cause, w') \<Rightarrow> throw_new_Error ''Error reading document: '' cause w'
           | (Inr docSnap, w') \<Rightarrow>
               (Inr (case snap_data docSnap of None \<Rightarrow> JsNull | Some d \<Rightarrow> JsObject d), w')))"
  by (simp add: FirestoreService_read_def async_defs snap_exists_def data_of_def
      split: sum.splits prod.splits option.splits)

subsection \<open>Reading a document\<close>

text \<open>
  Claim C3. For both clients: when the store returns a snapshot of an existing document,
  \<^verbatim>\<open>read\<close> returns the document, as the object of its fields; when the snapshot is of a
  missing document, \<^verbatim>\<open>read\<close> returns \<^verbatim>\<open>null\<close> (not \<^verbatim>\<open>undefined\<close>, and not an error); and
  \<^verbatim>\<open>read\<close> fails only when one of the two SDK calls it makes (\<^verbatim>\<open>doc\<close>, \<^verbatim>\<open>getDoc\<close>) has
  thrown. The error is then a new \<^verbatim>\<open>Error\<close> whose message is \<^verbatim>\<open>"Error reading document: "\<close>
  followed by the string the template literal makes of the value thrown (or the error of
  that conversion, when the value has no string form).
\<close>

theorem read_missing_document_is_null:
  "(doc sdk (fs_db this) collectionName documentId = Inr docRef
      \<and> getDoc sdk docRef w = (Inr (DocumentSnapshot ident (Some found)), w') \<longrightarrow>
      FirestoreService_read sdk this collectionName documentId w = (Inr (JsObject found), w'))
   \<and> (doc sdk (fs_db this) collectionName documentId = Inr docRef
      \<and> getDoc sdk docRef w = (Inr (DocumentSnapshot ident None), w') \<longrightarrow>
      FirestoreService_read sdk this collectionName documentId w = (Inr JsNull, w'))
   \<and> (FirestoreService_read sdk this collectionName documentId w = (Inl error, w') \<longrightarrow>
        (\<exists>cause. (doc sdk (fs_db this) collectionName documentId = Inl cause
              \<or> (\<exists>r. doc sdk (fs_db this) collectionName documentId = Inr r
                    \<and> getDoc sdk r w = (Inl cause, w')))
           \<and> error = (case js_to_string cause of
                        Inr text \<Rightarrow> new_Error (''Error reading document: '' @ text)
                      | Inl conversion_error \<Rightarrow> conversion_error)))
   \<and> (doc sdk (fsi_db inst) (fsi_collectionName inst) documentId = Inr docRef
      \<and> getDoc sdk docRef w = (Inr (DocumentSnapshot ident (Some found)), w') \<longrightarrow>
      FirestoreServiceInstance_read sdk inst documentId w = (Inr (JsObject found), w'))
   \<and> (doc sdk (fsi_db inst) (fsi_collectionName inst) documentId = Inr docRef
      \<and> getDoc sdk docRef w = (Inr (DocumentSnapshot ident None), w') \<longrightarrow>
      FirestoreServiceInstance_read sdk inst documentId w = (Inr JsNull, w'))
   \<and> (FirestoreServiceInstance_read sdk inst documentId w = (Inl error, w') \<longrightarrow>
        (\<exists>cause. (doc sdk (fsi_db inst) (fsi_collectionName inst) documentId = Inl cause
              \<or> (\<exists>r. doc sdk (fsi_db inst) (fsi_collectionName inst) documentId = Inr r
                    \<and> getDoc sdk r w = (Inl cause, w')))
           \<and> error = (case js_to_string cause of
                        Inr text \<Rightarrow> new_Error (''Error reading document: '' @ text)
                      | Inl conversion_error \<Rightarrow> conversion_error)))"
  unfolding FirestoreServiceInstance_read_eq FirestoreService_read_outcome throw_new_Error_outcome
    raised_def [symmetric]
  by (auto simp: FirestoreService_new_def split: sum.splits prod.splits)

theorem read_missing_document_is_null_witness:
  "FirestoreService_read (memory_firestore no_faults field_equals) (FirestoreService_new sample_db)
       ''users'' ''u1'' users_backend
     = (Inr (JsObject [''name'' \<mapsto> JsString ''John Doe'',
                       ''email'' \<mapsto> JsString ''john@example.com'']), users_backend)
   \<and> FirestoreService_read (memory_firestore no_faults field_equals) (FirestoreService_new sample_db)
       ''users'' ''u2'' users_backend = (Inr JsNull, users_backend)
   \<and> FirestoreServiceInstance_read (memory_firestore no_faults field_equals)
       (FirestoreServiceInstance_new sample_db ''users'') ''u2'' users_backend
       = (Inr JsNull, users_backend)
   \<and> FirestoreService_read
       (memory_firestore (only_fault (Call_getDoc (DocumentReference ''users'' ''u1''))) field_equals)
       (FirestoreService_new sample_db) ''users'' ''u1'' users_backend
       = (Inl (JsError ''Error''
            ''Error reading document: FirebaseError: [code=permission-denied]: Missing or insufficient permissions.''
            None None),
          users_backend)"
  using read_missing_document_is_null [where sdk = "memory_firestore no_faults field_equals"
      and this = "FirestoreService_new sample_db" and collectionName = "''users''"
      and documentId = "''u1''" and docRef = "DocumentReference ''users'' ''u1''"
      and w = users_backend and w' = users_backend and ident = "''u1''" and found = sample_user]
    read_missing_document_is_null [where sdk = "memory_firestore no_faults field_equals"
      and this = "FirestoreService_new sample_db" and collectionName = "''users''"
      and inst = "FirestoreServiceInstance_new sample_db ''users''"
      and documentId = "''u2''" and docRef = "DocumentReference ''users'' ''u2''"
      and w = users_backend and w' = users_backend and ident = "''u2''"]
    read_missing_document_is_null [where
      sdk = "memory_firestore (only_fault (Call_getDoc (DocumentReference ''users'' ''u1''))) field_equals"
      and this = "FirestoreService_new sample_db" and collectionName = "''users''"
      and documentId = "''u1''" and w = users_backend and w' = users_backend]
  by (simp add: memory_defs no_faults_def only_fault_def users_backend_def sample_user_def
      FirestoreService_new_def FirestoreServiceInstance_new_def FirestoreService_read_outcome
      FirestoreServiceInstance_read_eq throw_new_Error_outcome raised_def permission_denied_def
      FirestoreError_def new_Error_def)

subsection \<open>Updating a document\<close>

lemma map_of_store_put: "map_of (store_put k v entries) = (map_of entries)(k \<mapsto> v)"
  by (induction entries) (auto simp: fun_eq_iff)

lemma update_rereads:
  assumes "doc sdk (fs_db this) collectionName documentId = Inr docRef"
    and "updateDoc sdk docRef data w = (Inr (), w1)"
    and "getDoc sdk docRef w1 = (Inr docSnap, w2)"
  shows "FirestoreService_update sdk this collectionName documentId data w
    = (Inr (with_id (ref_id docRef) (spread (snap_data docSnap))), w2)"
  using assms by (simp add: FirestoreService_update_def async_defs)

lemma memory_update_existing:
  assumes "faults (Call_doc collectionName documentId) = None"
    and "faults (Call_updateDoc (DocumentReference collectionName documentId)) = None"
    and "faults (Call_getDoc (DocumentReference collectionName documentId)) = None"
    and "map_of (documents w) (collectionName, documentId) = Some old"
  shows "FirestoreService_update (memory_firestore faults satisfies) this collectionName documentId data w
    = (Inr (with_id documentId (old ++ data)),
       w\<lparr>documents := store_put (collectionName, documentId) (old ++ data) (documents w)\<rparr>)"
  using assms
  by (simp add: FirestoreService_update_def async_defs memory_defs map_of_store_put spread_def)

text \<open>
  Claim C6. For both clients and every SDK: when the write and the read after it return,
  \<^verbatim>\<open>update\<close> returns the document the store holds after the write, tagged with the
  identifier. On the store of the spec, for a document that exists with the fields \<open>old\<close>:
  the document returned and stored is \<open>merged\<close>, in which every field of the partial data
  has the given value and every other field is as it was in \<open>old\<close>. The example of the
  claim follows the theorem: \<^verbatim>\<open>{a:1,b:2}\<close> updated with \<^verbatim>\<open>{b:3}\<close> gives
  \<^verbatim>\<open>{a:1,b:3}\<close> under its identifier.
\<close>

theorem update_merges_fields:
  "(doc sdk (fs_db this) collectionName documentId = Inr docRef
      \<and> updateDoc sdk docRef data w = (Inr (), w1)
      \<and> getDoc sdk docRef w1 = (Inr docSnap, w2) \<longrightarrow>
      FirestoreService_update sdk this collectionName documentId data w
        = (Inr (with_id (ref_id docRef) (spread (snap_data docSnap))), w2)
      \<and> FirestoreServiceInstance_update sdk
            (FirestoreServiceInstance_new (fs_db this) collectionName) documentId data w
        = (Inr (with_id (ref_id docRef) (spread (snap_data docSnap))), w2))
   \<and> (faults (Call_doc collectionName documentId) = None
      \<and> faults (Call_updateDoc (DocumentReference collectionName documentId)) = None
      \<and> faults (Call_getDoc (DocumentReference collectionName documentId)) = None
      \<and> map_of (documents b) (collectionName, documentId) = Some old \<longrightarrow>
      (\<exists>merged b'.
          FirestoreService_update (memory_firestore faults satisfies) this
              collectionName documentId data b = (Inr (with_id documentId merged), b')
        \<and> FirestoreServiceInstance_update (memory_firestore faults satisfies)
              (FirestoreServiceInstance_new (fs_db this) collectionName) documentId data b
            = (Inr (with_id documentId merged), b')
        \<and> map_of (documents b') = (map_of (documents b))((collectionName, documentId) \<mapsto> merged)
        \<and> (\<forall>field v. data field = Some v \<longrightarrow> merged field = Some v)
        \<and> (\<forall>field. data field = None \<longrightarrow> merged field = old field)))"
proof (intro conjI impI)
  assume a: "doc sdk (fs_db this) collectionName documentId = Inr docRef
      \<and> updateDoc sdk docRef data w = (Inr (), w1)
      \<and> getDoc sdk docRef w1 = (Inr docSnap, w2)"
  then show "FirestoreService_update sdk this collectionName documentId data w
        = (Inr (with_id (ref_id docRef) (spread (snap_data docSnap))), w2)"
    by (simp add: update_rereads)
  from a show "FirestoreServiceInstance_update sdk
            (FirestoreServiceInstance_new (fs_db this) collectionName) documentId data w
        = (Inr (with_id (ref_id docRef) (spread (snap_data docSnap))), w2)"
    by (simp add: FirestoreServiceInstance_update_eq FirestoreServiceInstance_new_def
        FirestoreService_new_def update_rereads)
next
  assume a: "faults (Call_doc collectionName documentId) = None
      \<and> faults (Call_updateDoc (DocumentReference collectionName documentId)) = None
      \<and> faults (Call_getDoc (DocumentReference collectionName documentId)) = None
      \<and> map_of (documents b) (collectionName, documentId) = Some old"
  let ?b' = "b\<lparr>documents := store_put (collectionName, documentId) (old ++ data) (documents b)\<rparr>"
  have service: "FirestoreService_update (memory_firestore faults satisfies) svc
      collectionName documentId data b = (Inr (with_id documentId (old ++ data)), ?b')" for svc
    using a by (simp add: memory_update_existing)
  have "FirestoreServiceInstance_update (memory_firestore faults satisfies)
      (FirestoreServiceInstance_new (fs_db this) collectionName) documentId data b
        = (Inr (with_id documentId (old ++ data)), ?b')"
    by (simp add: FirestoreServiceInstance_update_eq FirestoreServiceInstance_new_def service)
  moreover have "map_of (documents ?b')
      = (map_of (documents b))((collectionName, documentId) \<mapsto> old ++ data)"
    by (simp add: map_of_store_put)
  moreover have "\<forall>field v. data field = Some v \<longrightarrow> (old ++ data) field = Some v"
    by (simp add: map_add_def)
  moreover have "\<forall>field. data field = None \<longrightarrow> (old ++ data) field = old field"
    by (simp add: map_add_def)
  ultimately show "\<exists>merged b'.
          FirestoreService_update (memory_firestore faults satisfies) this
              collectionName documentId data b = (Inr (with_id documentId merged), b')
        \<and> FirestoreServiceInstance_update (memory_firestore faults satisfies)
              (FirestoreServiceInstance_new (fs_db this) collectionName) documentId data b
            = (Inr (with_id documentId merged), b')
        \<and> map_of (documents b') = (map_of (documents b))((collectionName, documentId) \<mapsto> merged)
        \<and> (\<forall>field v. data field = Some v \<longrightarrow> merged field = Some v)
        \<and> (\<forall>field. data field = None \<longrightarrow> merged field = old field)"
    using service [of this] by blast
qed

theorem update_merges_fields_witness:
  "FirestoreService_create (memory_firestore no_faults field_equals) (FirestoreService_new sample_db)
       ''items'' [''a'' \<mapsto> JsNumber 1, ''b'' \<mapsto> JsNumber 2] (Some ''doc1'') empty_backend
     = (Inr [''id'' \<mapsto> JsString ''doc1'', ''a'' \<mapsto> JsNumber 1, ''b'' \<mapsto> JsNumber 2],
        items_backend)
   \<and> fst (FirestoreService_update (memory_firestore no_faults field_equals)
         (FirestoreService_new sample_db) ''items'' ''doc1'' [''b'' \<mapsto> JsNumber 3] items_backend)
     = Inr [''id'' \<mapsto> JsString ''doc1'', ''a'' \<mapsto> JsNumber 1, ''b'' \<mapsto> JsNumber 3]"
proof
  show "FirestoreService_create (memory_firestore no_faults field_equals)
       (FirestoreService_new sample_db)
       ''items'' [''a'' \<mapsto> JsNumber 1, ''b'' \<mapsto> JsNumber 2] (Some ''doc1'') empty_backend
     = (Inr [''id'' \<mapsto> JsString ''doc1'', ''a'' \<mapsto> JsNumber 1, ''b'' \<mapsto> JsNumber 2],
        items_backend)"
    by (simp add: FirestoreService_create_def new_docRef_def async_defs memory_defs no_faults_def
        with_id_def items_backend_def empty_backend_def)
next
  let ?old = "[''a'' \<mapsto> JsNumber 1, ''b'' \<mapsto> JsNumber 2]"
  let ?data = "[''b'' \<mapsto> JsNumber 3]"
  have stored: "map_of (documents items_backend) (''items'', ''doc1'') = Some ?old"
    by (simp add: items_backend_def)
  from update_merges_fields [where faults = no_faults and satisfies = field_equals
      and this = "FirestoreService_new sample_db" and collectionName = "''items''"
      and documentId = "''doc1''" and data = ?data and b = items_backend and old = ?old,
      THEN conjunct2] stored
  obtain merged b' where
    result: "FirestoreService_update (memory_firestore no_faults field_equals)
         (FirestoreService_new sample_db) ''items'' ''doc1'' ?data items_backend
       = (Inr (with_id ''doc1'' merged), b')"
    and given: "\<forall>field v. ?data field = Some v \<longrightarrow> merged field = Some v"
    and others: "\<forall>field. ?data field = None \<longrightarrow> merged field = ?old field"
    by (auto simp: no_faults_def)
  have "merged field = [''a'' \<mapsto> JsNumber 1, ''b'' \<mapsto> JsNumber 3] field" for field
    using given [rule_format, of field] others [rule_format, of field]
    by (cases "field = ''b''") simp_all
  then have "merged = [''a'' \<mapsto> JsNumber 1, ''b'' \<mapsto> JsNumber 3]"
    by (rule ext)
  with result show "fst (FirestoreService_update (memory_firestore no_faults field_equals)
         (FirestoreService_new sample_db) ''items'' ''doc1'' ?data items_backend)
     = Inr [''id'' \<mapsto> JsString ''doc1'', ''a'' \<mapsto> JsNumber 1, ''b'' \<mapsto> JsNumber 3]"
    by (simp add: with_id_def)
qed

subsection \<open>Listing and querying\<close>





subsection \<open>Failures\<close>

lemma create_fails_iff:
  "FirestoreService_create sdk this collectionName data customId w = (Inl error, w') \<longleftrightarrow>
     (\<exists>cause. (collection sdk (fs_db this) collectionName = Inl cause \<and> w' = w
           \<or> (\<exists>collectionRef. collection sdk (fs_db this) collectionName = Inr collectionRef
                \<and> (new_docRef sdk collectionRef customId w = (Inl cause, w')
                   \<or> (\<exists>docRef w1. new_docRef sdk collectionRef customId w = (Inr docRef, w1)
                        \<and> setDoc sdk docRef data w1 = (Inl cause, w')))))
        \<and> error = raised ''Error creating document: '' cause)"
  by (auto simp: FirestoreService_create_def async_defs throw_new_Error_outcome
      split: sum.splits prod.splits)

lemma read_fails_iff:
  "FirestoreService_read sdk this collectionName documentId w = (Inl error, w') \<longleftrightarrow>
     (\<exists>cause. (doc sdk (fs_db this) collectionName documentId = Inl cause \<and> w' = w
           \<or> (\<exists>docRef. doc sdk (fs_db this) collectionName documentId = Inr docRef
                \<and> getDoc sdk docRef w = (Inl cause, w')))
        \<and> error = raised ''Error reading document: '' cause)"
  by (auto simp: FirestoreService_read_def async_defs throw_new_Error_outcome
      split: sum.splits prod.splits)

lemma update_fails_iff:
  "FirestoreService_update sdk this collectionName documentId data w = (Inl error, w') \<longleftrightarrow>
     (\<exists>cause. (doc sdk (fs_db this) collectionName documentId = Inl cause \<and> w' = w
           \<or> (\<exists>docRef. doc sdk (fs_db this) collectionName documentId = Inr docRef
                \<and> (updateDoc sdk docRef data w = (Inl cause, w')
                   \<or> (\<exists>w1. updateDoc sdk docRef data w = (Inr (), w1)
                        \<and> getDoc sdk docRef w1 = (Inl cause, w')))))
        \<and> error = raised ''Error updating document: '' cause)"
  by (auto simp: FirestoreService_update_def async_defs throw_new_Error_outcome
      split: sum.splits prod.splits)

lemma delete_fails_iff:
  "FirestoreService_delete sdk this collectionName documentId w = (Inl error, w') \<longleftrightarrow>
     (\<exists>cause. (doc sdk (fs_db this) collectionName documentId = Inl cause \<and> w' = w
           \<or> (\<exists>docRef. doc sdk (fs_db this) collectionName documentId = Inr docRef
                \<and> deleteDoc sdk docRef w = (Inl cause, w')))
        \<and> error = raised ''Error deleting document: '' cause)"
  by (auto simp: FirestoreService_delete_def async_defs throw_new_Error_outcome
      split: sum.splits prod.splits)

lemma getAll_fails_iff:
  "FirestoreService_getAll sdk this collectionName w = (Inl error, w') \<longleftrightarrow>
     (\<exists>cause. (collection sdk (fs_db this) collectionName = Inl cause \<and> w' = w
           \<or> (\<exists>collectionRef. collection sdk (fs_db this) collectionName = Inr collectionRef
                \<and> getDocs sdk (Query (coll_path collectionRef) []) w = (Inl cause, w')))
        \<and> error = raised ''Error getting all documents: '' cause)"
  by (auto simp: FirestoreService_getAll_def async_defs throw_new_Error_outcome as_Query_def
      Let_def split: sum.splits prod.splits)

lemma query_fails_iff:
  "FirestoreService_query sdk this collectionName conditions w = (Inl error, w') \<longleftrightarrow>
     (\<exists>cause. (collection sdk (fs_db this) collectionName = Inl cause \<and> w' = w
           \<or> (\<exists>collectionRef. collection sdk (fs_db this) collectionName = Inr collectionRef
                \<and> (query sdk (Query (coll_path collectionRef) []) conditions = Inl cause \<and> w' = w
                   \<or> (\<exists>q. query sdk (Query (coll_path collectionRef) []) conditions = Inr q
                        \<and> getDocs sdk q w = (Inl cause, w')))))
        \<and> error = raised ''Error querying documents: '' cause)"
  by (auto simp: FirestoreService_query_def async_defs throw_new_Error_outcome as_Query_def
      split: sum.splits prod.splits)

lemma string_of_errors:
  "js_to_string (new_Error message) = Inr (if message = [] then ''Error'' else ''Error: '' @ message)
   \<and> js_to_string (FirestoreError code message)
       = Inr (''FirebaseError: [code='' @ code @ '']: '' @ message)
   \<and> js_to_string (JsString s) = Inr s"
  by (simp add: new_Error_def FirestoreError_def)

text \<open>
  Claim C8, as stated, fails: the message of the re-raised error names the operation and
  the cause, not the collection or the identifier. A \<^verbatim>\<open>delete\<close> of \<^verbatim>\<open>users/u1\<close> that the
  backend refuses fails with a message that mentions neither \<^verbatim>\<open>users\<close> nor \<^verbatim>\<open>u1\<close>.
\<close>

theorem delete_error_names_no_document_counterexample:
  "FirestoreService_delete
     (memory_firestore (only_fault (Call_deleteDoc (DocumentReference ''users'' ''u1''))) field_equals)
     (FirestoreService_new sample_db) ''users'' ''u1'' empty_backend
     = (Inl (JsError ''Error''
          ''Error deleting document: FirebaseError: [code=permission-denied]: Missing or insufficient permissions.''
          None None),
        empty_backend)
   \<and> \<not> mentions
        ''Error deleting document: FirebaseError: [code=permission-denied]: Missing or insufficient permissions.''
        ''users''
   \<and> \<not> mentions
        ''Error deleting document: FirebaseError: [code=permission-denied]: Missing or insufficient permissions.''
        ''u1''"
  by (simp add: FirestoreService_delete_def async_defs throw_new_Error_outcome raised_def
      memory_defs only_fault_def permission_denied_def FirestoreError_def new_Error_def)

text \<open>
  Claim C8, amended. For each of the six operations of the generic client: the operation
  fails exactly when one of the SDK calls it makes has thrown, and the world is left as
  that call left it. The error it raises is a new \<^verbatim>\<open>Error\<close> whose message is the
  operation's fixed phrase followed by the string the template literal makes of the value
  thrown: for an \<^verbatim>\<open>Error\<close> its name and message, for an error of the Firestore SDK what
  its own \<^verbatim>\<open>toString\<close> gives, for a string the string. (A value thrown that has no string
  form makes the conversion throw, and that error is raised in place of the new one.)
  Nothing is swallowed, and neither the collection nor the identifier is added. The
  collection-scoped client is the generic client at its collection, so the same holds for
  its six operations.
\<close>

theorem document_client_failures_rethrown:
  "(FirestoreService_create sdk this collectionName data customId w = (Inl error, w') \<longleftrightarrow>
     (\<exists>cause. (collection sdk (fs_db this) collectionName = Inl cause \<and> w' = w
           \<or> (\<exists>collectionRef. collection sdk (fs_db this) collectionName = Inr collectionRef
                \<and> (new_docRef sdk collectionRef customId w = (Inl cause, w')
                   \<or> (\<exists>docRef w1. new_docRef sdk collectionRef customId w = (Inr docRef, w1)
                        \<and> setDoc sdk docRef data w1 = (Inl cause, w')))))
        \<and> error = (case js_to_string cause of
                     Inr text \<Rightarrow> new_Error (''Error creating document: '' @ text)
                   | Inl conversion_error \<Rightarrow> conversion_error)))
   \<and> (FirestoreService_read sdk this collectionName documentId w = (Inl error, w') \<longleftrightarrow>
     (\<exists>cause. (doc sdk (fs_db this) collectionName documentId = Inl cause \<and> w' = w
           \<or> (\<exists>docRef. doc sdk (fs_db this) collectionName documentId = Inr docRef
                \<and> getDoc sdk docRef w = (Inl cause, w')))
        \<and> error = (case js_to_string cause of
                     Inr text \<Rightarrow> new_Error (''Error reading document: '' @ text)
                   | Inl conversion_error \<Rightarrow> conversion_error)))
   \<and> (FirestoreService_update sdk this collectionName documentId data w = (Inl error, w') \<longleftrightarrow>
     (\<exists>cause. (doc sdk (fs_db this) collectionName documentId = Inl cause \<and> w' = w
           \<or> (\<exists>docRef. doc sdk (fs_db this) collectionName documentId = Inr docRef
                \<and> (updateDoc sdk docRef data w = (Inl cause, w')
                   \<or> (\<exists>w1. updateDoc sdk docRef data w = (Inr (), w1)
                        \<and> getDoc sdk docRef w1 = (Inl cause, w')))))
        \<and> error = (case js_to_string cause of
                     Inr text \<Rightarrow> new_Error (''Error updating document: '' @ text)
                   | Inl conversion_error \<Rightarrow> conversion_error)))
   \<and> (FirestoreService_delete sdk this collectionName documentId w = (Inl error, w') \<longleftrightarrow>
     (\<exists>cause. (doc sdk (fs_db this) collectionName documentId = Inl cause \<and> w' = w
           \<or> (\<exists>docRef. doc sdk (fs_db this) collectionName documentId = Inr docRef
                \<and> deleteDoc sdk docRef w = (Inl cause, w')))
        \<and> error = (case js_to_string cause of
                     Inr text \<Rightarrow> new_Error (''Error deleting document: '' @ text)
                   | Inl conversion_error \<Rightarrow> conversion_error)))
   \<and> (FirestoreService_getAll sdk this collectionName w = (Inl error, w') \<longleftrightarrow>
     (\<exists>cause. (collection sdk (fs_db this) collectionName = Inl cause \<and> w' = w
           \<or> (\<exists>collectionRef. collection sdk (fs_db this) collectionName = Inr collectionRef
                \<and> getDocs sdk (Query (coll_path collectionRef) []) w = (Inl cause, w')))
        \<and> error = (case js_to_string cause of
                     Inr text \<Rightarrow> new_Error (''Error getting all documents: '' @ text)
                   | Inl conversion_error \<Rightarrow> conversion_error)))
   \<and> (FirestoreService_query sdk this collectionName conditions w = (Inl error, w') \<longleftrightarrow>
     (\<exists>cause. (collection sdk (fs_db this) collectionName = Inl cause \<and> w' = w
           \<or> (\<exists>collectionRef. collection sdk (fs_db this) collectionName = Inr collectionRef
                \<and> (query sdk (Query (coll_path collectionRef) []) conditions = Inl cause \<and> w' = w
                   \<or> (\<exists>q. query sdk (Query (coll_path collectionRef) []) conditions = Inr q
                        \<and> getDocs sdk q w = (Inl cause, w')))))
        \<and> error = (case js_to_string cause of
                     Inr text \<Rightarrow> new_Error (''Error querying documents: '' @ text)
                   | Inl conversion_error \<Rightarrow> conversion_error)))
   \<and> js_to_string (new_Error message)
       = Inr (if message = [] then ''Error'' else ''Error: '' @ message)
   \<and> js_to_string (FirestoreError code message)
       = Inr (''FirebaseError: [code='' @ code @ '']: '' @ message)
   \<and> js_to_string (JsString s) = Inr s
   \<and> FirestoreServiceInstance_create sdk inst =
       FirestoreService_create sdk (FirestoreService_new (fsi_db inst)) (fsi_collectionName inst)
   \<and> FirestoreServiceInstance_read sdk inst =
       FirestoreService_read sdk (FirestoreService_new (fsi_db inst)) (fsi_collectionName inst)
   \<and> FirestoreServiceInstance_update sdk inst =
       FirestoreService_update sdk (FirestoreService_new (fsi_db inst)) (fsi_collectionName inst)
   \<and> FirestoreServiceInstance_delete sdk inst =
       FirestoreService_delete sdk (FirestoreService_new (fsi_db inst)) (fsi_collectionName inst)
   \<and> fst (FirestoreServiceInstance_getAll sdk inst w) =
       fst (FirestoreService_getAll sdk (FirestoreService_new (fsi_db inst))
              (fsi_collectionName inst) w)
   \<and> FirestoreServiceInstance_query sdk inst =
       FirestoreService_query sdk (FirestoreService_new (fsi_db inst)) (fsi_collectionName inst)"
  by (intro conjI create_fails_iff [unfolded raised_def] read_fails_iff [unfolded raised_def]
      update_fails_iff [unfolded raised_def] delete_fails_iff [unfolded raised_def]
      getAll_fails_iff [unfolded raised_def] query_fails_iff [unfolded raised_def]
      string_of_errors [THEN conjunct1]
      string_of_errors [THEN conjunct2, THEN conjunct1]
      string_of_errors [THEN conjunct2, THEN conjunct2] FirestoreServiceInstance_create_eq
      FirestoreServiceInstance_read_eq FirestoreServiceInstance_update_eq
      FirestoreServiceInstance_delete_eq FirestoreServiceInstance_getAll_eq
      FirestoreServiceInstance_query_eq)

theorem document_client_failures_rethrown_witness:
  "FirestoreService_update (memory_firestore no_faults field_equals) (FirestoreService_new sample_db)
       ''users'' ''u9'' [''name'' \<mapsto> JsString ''Jane Doe''] empty_backend
     = (Inl (JsError ''Error''
          ''Error updating document: FirebaseError: [code=not-found]: No document to update''
          None None),
        empty_backend)
   \<and> FirestoreServiceInstance_delete
       (memory_firestore (only_fault (Call_doc ''users'' ''u1'')) field_equals)
       (FirestoreServiceInstance_new sample_db ''users'') ''u1'' empty_backend
     = (Inl (JsError ''Error''
          ''Error deleting document: FirebaseError: [code=permission-denied]: Missing or insufficient permissions.''
          None None),
        empty_backend)"
proof
  have "updateDoc (memory_firestore no_faults field_equals) (DocumentReference ''users'' ''u9'')
      [''name'' \<mapsto> JsString ''Jane Doe''] empty_backend
    = (Inl (FirestoreError ''not-found'' ''No document to update''), empty_backend)"
    by (simp add: memory_defs no_faults_def empty_backend_def)
  moreover have "doc (memory_firestore no_faults field_equals)
      (fs_db (FirestoreService_new sample_db)) ''users'' ''u9''
    = Inr (DocumentReference ''users'' ''u9'')"
    by (simp add: memory_defs no_faults_def)
  moreover have "JsError ''Error''
          ''Error updating document: FirebaseError: [code=not-found]: No document to update''
          None None
      = (case js_to_string (FirestoreError ''not-found'' ''No document to update'') of
           Inr text \<Rightarrow> new_Error (''Error updating document: '' @ text)
         | Inl conversion_error \<Rightarrow> conversion_error)"
    by (simp add: FirestoreError_def new_Error_def)
  ultimately show "FirestoreService_update (memory_firestore no_faults field_equals)
       (FirestoreService_new sample_db)
       ''users'' ''u9'' [''name'' \<mapsto> JsString ''Jane Doe''] empty_backend
     = (Inl (JsError ''Error''
          ''Error updating document: FirebaseError: [code=not-found]: No document to update''
          None None),
        empty_backend)"
    using document_client_failures_rethrown
      [where sdk = "memory_firestore no_faults field_equals"
        and this = "FirestoreService_new sample_db" and collectionName = "''users''"
        and documentId = "''u9''" and data = "[''name'' \<mapsto> JsString ''Jane Doe'']"
        and w = empty_backend and w' = empty_backend
        and error = "JsError ''Error''
          ''Error updating document: FirebaseError: [code=not-found]: No document to update''
          None None",
        THEN conjunct2, THEN conjunct2, THEN conjunct1]
    by blast
next
  show "FirestoreServiceInstance_delete
       (memory_firestore (only_fault (Call_doc ''users'' ''u1'')) field_equals)
       (FirestoreServiceInstance_new sample_db ''users'') ''u1'' empty_backend
     = (Inl (JsError ''Error''
          ''Error deleting document: FirebaseError: [code=permission-denied]: Missing or insufficient permissions.''
          None None),
        empty_backend)"
    by (simp add: FirestoreServiceInstance_delete_def FirestoreServiceInstance_new_def
        async_defs throw_new_Error_outcome raised_def memory_defs only_fault_def
        permission_denied_def FirestoreError_def new_Error_def)
qed

end
